theory Spec2Isabelle
  imports Complex_Main
begin

section \<open>Gaze facing decision pipeline: \<open>GazeDetection.detect\<close> of \<open>src/main.py\<close>\<close>

text \<open>
  The development embeds the method \<open>GazeDetection.detect\<close>. The collaborators that are
  imported from \<open>components\<close> (landmark tracking, perspective-n-point solver, pupil
  locator) are parameters of the model. Python floats are read as real numbers: the
  comparisons, \<open>abs\<close>, \<open>max\<close> and \<open>min\<close> of the source are exact on floats, the products
  and quotients are taken without rounding error. Pixel contents are left out: a frame is
  known by its shape, an eye image by the bounds of its slice, and the returned frame by
  the slice taken from the input frame. The drawing code of lines 223-287 only changes
  pixels and catches its own exceptions, so it has no counterpart here. The coordinates
  of landmarks and pupils are Python integers, so that the quotient of lines 199-202
  raises \<open>ZeroDivisionError\<close> on a zero denominator; the collaborators themselves are
  taken to answer without raising.
\<close>

subsection \<open>Constants of the module\<close>

definition EYE_RATIO_MULTIPLIER :: real where
  "EYE_RATIO_MULTIPLIER = 100"

definition FACE_FACING_SENSIBILITY :: real where
  "FACE_FACING_SENSIBILITY = 20"

definition GAZE_FACING_SENSIBILITY :: real where
  "GAZE_FACING_SENSIBILITY = 5"

subsection \<open>Data\<close>

type_synonym point = "int \<times> int"

text \<open>A face record of the landmark provider: the keys of \<open>FaceLandmarkK\<close> that
  \<open>detect\<close> reads. \<open>BOX\<close> is \<open>(x, y, w, h)\<close>.\<close>

record face =
  NOSE :: point
  CHIN :: point
  EYE_L_OUT :: point
  EYE_L_IN :: point
  EYE_L_TOP :: point
  EYE_L_BOTTOM :: point
  EYE_R_OUT :: point
  EYE_R_IN :: point
  EYE_R_TOP :: point
  EYE_R_BOTTOM :: point
  MOUTH_L :: point
  MOUTH_R :: point
  BOX :: "int \<times> int \<times> int \<times> int"

text \<open>A slice \<open>a[r0:r1, c0:c1]\<close> of an image, by its four bounds.\<close>

type_synonym slice = "int \<times> int \<times> int \<times> int"

text \<open>The attributes of a \<open>GazeDetection\<close> object that \<open>detect\<close> reads.
  \<open>pupil_detection\<close> is \<open>None\<close> in the mode \<open>no_pupil\<close>; otherwise it holds
  \<open>detect_pupil\<close>, from an eye image to the local \<open>(x, y)\<close> of the pupil.\<close>

record config =
  pupil_detection :: "(slice \<Rightarrow> int \<times> int) option"
  eye_frame_padding :: "int \<times> int"
  face_facing_sensibility :: real
  print_on_serial :: bool
  serial_writing_step :: real
  crop_frame :: bool
  crop_frame_paddings :: "real \<times> real \<times> real \<times> real"

text \<open>What the other collaborators answer for the frame at hand:
  \<open>face_analysis\<close> is the sequence returned by \<open>landmark_tracking.face_analysis(framebg)\<close>,
  \<open>pose\<close> maps \<open>frame.shape\<close> and the six image points to \<open>(pitch, yaw, roll)\<close>.\<close>

record collaborators =
  face_analysis :: "face list"
  pose :: "int \<times> int \<Rightarrow> point list \<Rightarrow> real \<times> real \<times> real"

datatype error = ZeroDivisionError | IndexError | UnboundLocalError

datatype info_value = Angle real | Pupil int int

type_synonym info = "string \<rightharpoonup> info_value"

text \<open>The frame handed back: the input frame itself, or a slice of it.\<close>

datatype frame_out = Whole | Cropped slice

text \<open>The local variables that live across the iterations of the loop over the faces.
  \<open>gaze_facing\<close> is unbound until the first iteration has run.\<close>

record loop_vars =
  biggest_face_index :: nat
  biggest_face_area :: int
  saved_info :: info
  gaze_facing :: "bool option"

text \<open>The result of \<open>detect\<close> with \<open>return_info = True\<close>, together with the values
  handed to \<open>serial_port.write\<close> during the call, in order.\<close>

record detection =
  out_frame :: frame_out
  out_gaze_facing :: bool
  out_info :: info
  serial_written :: "real list"

subsection \<open>Python arithmetic\<close>

text \<open>\<open>int(x)\<close> of a float truncates towards zero.\<close>

definition py_int :: "real \<Rightarrow> int" where
  "py_int x = (if 0 \<le> x then \<lfloor>x\<rfloor> else \<lceil>x\<rceil>)"

text \<open>\<open>round(x, 2)\<close>: the nearest multiple of one hundredth, a tie going to the even one.\<close>

definition py_round2 :: "real \<Rightarrow> real" where
  "py_round2 x =
     (let y = x * 100; f = \<lfloor>y\<rfloor>; d = y - of_int f;
          n = (if d < 1 / 2 then f else if 1 / 2 < d then f + 1
               else if even f then f else f + 1)
      in of_int n / 100)"

subsection \<open>One face\<close>

text \<open>Lines 163-166.\<close>

definition face_facing :: "config \<Rightarrow> real \<Rightarrow> real \<Rightarrow> bool" where
  "face_facing cfg pitch yaw =
     (if \<bar>pitch\<bar> < face_facing_sensibility cfg \<and> \<bar>yaw\<bar> < face_facing_sensibility cfg
      then True else False)"

text \<open>Lines 199-202: \<open>round((pupil_x - a) / (b - a) - 0.5, 2)\<close> on Python integers;
  the division raises when \<open>b = a\<close>.\<close>

definition pupil_center_h_ratio :: "int \<Rightarrow> int \<Rightarrow> int \<Rightarrow> error + real" where
  "pupil_center_h_ratio pupil_x a b =
     (if b - a = 0 then Inl ZeroDivisionError
      else Inr (py_round2 (real_of_int (pupil_x - a) / real_of_int (b - a) - 1 / 2)))"

text \<open>Lines 205-213. On entry \<open>gaze_facing\<close> holds \<open>face_facing\<close> (line 168), and the
  chain of \<open>elif\<close> leaves it alone when no branch is taken.\<close>

definition facing_computation :: "config \<Rightarrow> bool \<Rightarrow> real \<Rightarrow> real \<Rightarrow> real \<Rightarrow> bool" where
  "facing_computation cfg ff yaw r_l r_r =
     (if ff then
        (if max \<bar>r_l\<bar> \<bar>r_r\<bar> < face_facing_sensibility cfg / EYE_RATIO_MULTIPLIER
         then True else False)
      else if yaw < 0 \<and>
              \<bar>2 * \<bar>r_l\<bar> * EYE_RATIO_MULTIPLIER - \<bar>yaw\<bar>\<bar> < GAZE_FACING_SENSIBILITY
        then True
      else if yaw > 0 \<and>
              \<bar>2 * \<bar>r_r\<bar> * EYE_RATIO_MULTIPLIER - \<bar>yaw\<bar>\<bar> < GAZE_FACING_SENSIBILITY
        then True
      else ff)"

text \<open>Lines 172-213: the pupil stage of one face. It takes \<open>face_facing\<close>, the yaw and
  the diagnostic dictionary, and gives the dictionary and \<open>gaze_facing\<close>.\<close>

definition pupil_stage ::
  "config \<Rightarrow> face \<Rightarrow> bool \<Rightarrow> real \<Rightarrow> info \<Rightarrow> error + (info \<times> bool)" where
  "pupil_stage cfg face ff yaw diag =
     (case pupil_detection cfg of
        None \<Rightarrow> Inr (diag, ff)
      | Some detect_pupil \<Rightarrow>
         (let pad_h = fst (eye_frame_padding cfg);
              pad_v = snd (eye_frame_padding cfg);
              eye_l = (snd (EYE_L_TOP face) - pad_v, snd (EYE_L_BOTTOM face) + pad_v,
                       fst (EYE_L_IN face) - pad_h, fst (EYE_L_OUT face) + pad_h);
              eye_r = (snd (EYE_R_TOP face) - pad_v, snd (EYE_R_BOTTOM face) + pad_v,
                       fst (EYE_R_OUT face) - pad_h, fst (EYE_R_IN face) + pad_h);
              loc_l = detect_pupil eye_l;
              loc_r = detect_pupil eye_r;
              pupil_l_y = snd (EYE_L_TOP face) - pad_v + snd loc_l;
              pupil_l_x = fst (EYE_L_IN face) - pad_h + fst loc_l;
              pupil_r_y = snd (EYE_R_TOP face) - pad_v + snd loc_r;
              pupil_r_x = fst (EYE_R_OUT face) - pad_h + fst loc_r;
              diag' = diag(''l_eye'' \<mapsto> Pupil pupil_l_x pupil_l_y,
                         ''r_eye'' \<mapsto> Pupil pupil_r_x pupil_r_y)
          in (case pupil_center_h_ratio pupil_l_x (fst (EYE_L_IN face))
                        (fst (EYE_L_OUT face)) of
               Inl e \<Rightarrow> Inl e
             | Inr r_l \<Rightarrow>
                 (case pupil_center_h_ratio pupil_r_x (fst (EYE_R_OUT face))
                         (fst (EYE_R_IN face)) of
                    Inl e \<Rightarrow> Inl e
                  | Inr r_r \<Rightarrow> Inr (diag', facing_computation cfg ff yaw r_l r_r)))))"

text \<open>Line 216.\<close>

definition face_area :: "face \<Rightarrow> int" where
  "face_area face = fst (snd (snd (BOX face))) * snd (snd (snd (BOX face)))"

text \<open>Lines 146-219: the body of the loop, for the pair that \<open>enumerate\<close> yields.\<close>

definition detect_face ::
  "config \<Rightarrow> collaborators \<Rightarrow> int \<times> int \<Rightarrow> nat \<times> face \<Rightarrow> loop_vars \<Rightarrow> error + loop_vars" where
  "detect_face cfg env shape ixf vars =
     (let face_index = fst ixf;
          face = snd ixf;
          image_points = [NOSE face, CHIN face, EYE_L_OUT face, EYE_R_OUT face,
                          MOUTH_L face, MOUTH_R face];
          pyr = pose env shape image_points;
          pitch = fst pyr;
          yaw = fst (snd pyr);
          roll = snd (snd pyr);
          diag = (saved_info vars)(''pitch'' \<mapsto> Angle pitch, ''yaw'' \<mapsto> Angle yaw,
                                  ''roll'' \<mapsto> Angle roll);
          ff = face_facing cfg pitch yaw
      in case pupil_stage cfg face ff yaw diag of
           Inl e \<Rightarrow> Inl e
         | Inr (diag', gf) \<Rightarrow>
             let current_face_area = face_area face
             in if current_face_area > biggest_face_area vars
                then Inr \<lparr>biggest_face_index = face_index,
                          biggest_face_area = current_face_area,
                          saved_info = diag', gaze_facing = Some gf\<rparr>
                else Inr \<lparr>biggest_face_index = biggest_face_index vars,
                          biggest_face_area = biggest_face_area vars,
                          saved_info = diag', gaze_facing = Some gf\<rparr>)"

subsection \<open>The frame\<close>

text \<open>Lines 144-219: the loop; an exception of the body ends it.\<close>

fun detect_loop ::
  "config \<Rightarrow> collaborators \<Rightarrow> int \<times> int \<Rightarrow> (nat \<times> face) list \<Rightarrow> loop_vars \<Rightarrow> error + loop_vars" where
  "detect_loop cfg env shape [] vars = Inr vars"
| "detect_loop cfg env shape (ixf # rest) vars =
     (case detect_face cfg env shape ixf vars of
        Inl e \<Rightarrow> Inl e
      | Inr vars' \<Rightarrow> detect_loop cfg env shape rest vars')"

text \<open>Lines 137-140.\<close>

definition initial_vars :: loop_vars where
  "initial_vars = \<lparr>biggest_face_index = 0, biggest_face_area = 0,
                    saved_info = Map.empty, gaze_facing = None\<rparr>"

text \<open>Lines 292-301: the values written to the serial port for the box of the biggest
  face. A write that raises is caught on line 302 and changes nothing else.\<close>

definition steering :: "config \<Rightarrow> int \<times> int \<Rightarrow> int \<times> int \<times> int \<times> int \<Rightarrow> real list" where
  "steering cfg shape box =
     (let frame_center = real_of_int (snd shape) / 2;
          fx = fst box;
          fw = fst (snd (snd box));
          face_center = real_of_int fx + real_of_int fw / 2
      in if print_on_serial cfg then
           (if face_center < frame_center - 200 then [- serial_writing_step cfg]
            else if face_center > frame_center + 200 then [serial_writing_step cfg]
            else [])
         else [])"

text \<open>Lines 307-308: the bounds of the slice \<open>frame[r0:r1, c0:c1]\<close>.\<close>

definition crop_slice :: "config \<Rightarrow> int \<times> int \<Rightarrow> int \<times> int \<times> int \<times> int \<Rightarrow> slice" where
  "crop_slice cfg shape box =
     (let fx = fst box; fy = fst (snd box);
          fw = fst (snd (snd box)); fh = snd (snd (snd box));
          pad_top = fst (crop_frame_paddings cfg);
          pad_right = fst (snd (crop_frame_paddings cfg));
          pad_bottom = fst (snd (snd (crop_frame_paddings cfg)));
          pad_left = snd (snd (snd (crop_frame_paddings cfg)))
      in (max (py_int (real_of_int fy - real_of_int fh * pad_top)) 0,
          min (fy + py_int (real_of_int fh * (1 + pad_bottom))) (fst shape),
          max (py_int (real_of_int fx - real_of_int fw * pad_left)) 0,
          min (fx + py_int (real_of_int fw * (1 + pad_right))) (snd shape)))"

text \<open>Lines 134-316, for a frame of shape \<open>shape = (rows, columns)\<close>.\<close>

definition detect :: "config \<Rightarrow> collaborators \<Rightarrow> int \<times> int \<Rightarrow> error + detection" where
  "detect cfg env shape =
     (let faces = face_analysis env
      in case detect_loop cfg env shape (enumerate 0 faces) initial_vars of
           Inl e \<Rightarrow> Inl e
         | Inr vars \<Rightarrow>
             if length faces > 0 then
               (if biggest_face_index vars < length faces then
                  (let box = BOX (faces ! biggest_face_index vars);
                       written = steering cfg shape box;
                       frame' = (if crop_frame cfg then Cropped (crop_slice cfg shape box)
                                 else Whole)
                   in case gaze_facing vars of
                        None \<Rightarrow> Inl UnboundLocalError
                      | Some gf \<Rightarrow>
                          Inr \<lparr>out_frame = frame', out_gaze_facing = gf,
                               out_info = saved_info vars, serial_written = written\<rparr>)
                else Inl IndexError)
             else Inr \<lparr>out_frame = Whole, out_gaze_facing = False,
                       out_info = saved_info vars, serial_written = []\<rparr>)"

subsection \<open>Notions used in the statements\<close>

text \<open>An eye whose inner and outer corner have the same x-coordinate: the denominator
  of one of the two ratios of lines 199-202 is zero.\<close>

definition degenerate_eye :: "face \<Rightarrow> bool" where
  "degenerate_eye f =
     (fst (EYE_L_OUT f) = fst (EYE_L_IN f) \<or> fst (EYE_R_IN f) = fst (EYE_R_OUT f))"

text \<open>The keys of the diagnostic dictionary that one iteration of the loop writes.\<close>

definition info_keys :: "config \<Rightarrow> string set" where
  "info_keys cfg =
     {''pitch'', ''yaw'', ''roll''} \<union>
     (if pupil_detection cfg = None then {} else {''l_eye'', ''r_eye''})"

text \<open>Line 293: the box of the face that the loop has chosen.\<close>

definition dominant_box ::
  "config \<Rightarrow> collaborators \<Rightarrow> int \<times> int \<Rightarrow> error + (int \<times> int \<times> int \<times> int)" where
  "dominant_box cfg env shape =
     (case detect_loop cfg env shape (enumerate 0 (face_analysis env)) initial_vars of
        Inl e \<Rightarrow> Inl e
      | Inr vars \<Rightarrow> Inr (BOX (face_analysis env ! biggest_face_index vars)))"

subsection \<open>Sample data\<close>

text \<open>A pupil locator that answers the centre of the eye image, and a pose solver that
  reads the yaw off the x-coordinate of the nose; pitch and roll are zero.\<close>

definition sample_detect_pupil :: "slice \<Rightarrow> int \<times> int" where
  "sample_detect_pupil s =
     ((snd (snd (snd s)) - fst (snd (snd s))) div 2, (fst (snd s) - fst s) div 2)"

definition sample_pose :: "int \<times> int \<Rightarrow> point list \<Rightarrow> real \<times> real \<times> real" where
  "sample_pose shape pts =
     (case pts of [] \<Rightarrow> (0, 0, 0) | p # _ \<Rightarrow> (0, real_of_int (fst p), 0))"

text \<open>A face with eyes twenty pixels wide, and one whose left eye has collapsed.\<close>

definition sample_face :: "int \<Rightarrow> int \<times> int \<times> int \<times> int \<Rightarrow> face" where
  "sample_face nose_x box =
     \<lparr>NOSE = (nose_x, 40), CHIN = (40, 70),
      EYE_L_OUT = (70, 20), EYE_L_IN = (50, 20), EYE_L_TOP = (60, 18), EYE_L_BOTTOM = (60, 24),
      EYE_R_OUT = (10, 20), EYE_R_IN = (30, 20), EYE_R_TOP = (20, 18), EYE_R_BOTTOM = (20, 24),
      MOUTH_L = (55, 55), MOUTH_R = (25, 55), BOX = box\<rparr>"

definition collapsed_face :: "int \<Rightarrow> int \<times> int \<times> int \<times> int \<Rightarrow> face" where
  "collapsed_face nose_x box = (sample_face nose_x box)\<lparr>EYE_L_OUT := (50, 20)\<rparr>"

text \<open>The defaults of \<open>__init__\<close>, with the sample locator, and the same without
  pupil detection.\<close>

definition sample_config :: config where
  "sample_config =
     \<lparr>pupil_detection = Some sample_detect_pupil, eye_frame_padding = (0, 2),
      face_facing_sensibility = FACE_FACING_SENSIBILITY, print_on_serial = True,
      serial_writing_step = 5, crop_frame = True,
      crop_frame_paddings = (1 / 2, 0, 15 / 100, 0)\<rparr>"

definition no_pupil_config :: config where
  "no_pupil_config = sample_config\<lparr>pupil_detection := None\<rparr>"

definition sample_env :: "face list \<Rightarrow> collaborators" where
  "sample_env faces = \<lparr>face_analysis = faces, pose = sample_pose\<rparr>"

definition silent_config :: config where
  "silent_config = sample_config\<lparr>print_on_serial := False\<rparr>"

subsection \<open>The crop rectangle as the specification words it\<close>

text \<open>Rows \<open>[max(fy - fh pad_top, 0), min(fy + fh (1 + pad_bottom), frame_h)]\<close> and
  columns \<open>[max(fx - fw pad_left, 0), min(fx + fw (1 + pad_right), frame_w)]\<close>, over the
  reals and without the truncations of the code; to be compared with \<open>crop_slice\<close>.\<close>

definition spec_crop_rectangle ::
  "real \<times> real \<times> real \<times> real \<Rightarrow> int \<times> int \<Rightarrow> int \<times> int \<times> int \<times> int \<Rightarrow>
   real \<times> real \<times> real \<times> real" where
  "spec_crop_rectangle pads shape box =
     (let fx = real_of_int (fst box); fy = real_of_int (fst (snd box));
          fw = real_of_int (fst (snd (snd box))); fh = real_of_int (snd (snd (snd box)));
          pad_top = fst pads; pad_right = fst (snd pads);
          pad_bottom = fst (snd (snd pads)); pad_left = snd (snd (snd pads))
      in (max (fy - fh * pad_top) 0, min (fy + fh * (1 + pad_bottom)) (real_of_int (fst shape)),
          max (fx - fw * pad_left) 0, min (fx + fw * (1 + pad_right)) (real_of_int (snd shape))))"

section \<open>Properties\<close>

text \<open>Unfolding rules for the evaluation of concrete frames.\<close>

lemmas sample_defs = sample_config_def no_pupil_config_def silent_config_def sample_env_def
  sample_face_def collapsed_face_def sample_pose_def sample_detect_pupil_def
  FACE_FACING_SENSIBILITY_def EYE_RATIO_MULTIPLIER_def GAZE_FACING_SENSIBILITY_def

lemmas detect_defs = detect_def detect_face_def pupil_stage_def pupil_center_h_ratio_def
  facing_computation_def face_facing_def face_area_def steering_def crop_slice_def
  py_int_def py_round2_def initial_vars_def enumerate_eq_zip Let_def

subsection \<open>One iteration\<close>

lemma pupil_stage_None:
  "pupil_detection cfg = None \<Longrightarrow> pupil_stage cfg f ff yaw d = Inr (d, ff)"
  by (simp add: pupil_stage_def)

lemma pupil_stage_degenerate:
  "pupil_detection cfg = Some dp \<Longrightarrow> degenerate_eye f \<Longrightarrow>
   pupil_stage cfg f ff yaw d = Inl ZeroDivisionError"
  by (auto simp: pupil_stage_def degenerate_eye_def pupil_center_h_ratio_def Let_def)

lemma pupil_stage_Some:
  "pupil_detection cfg = Some dp \<Longrightarrow> \<not> degenerate_eye f \<Longrightarrow>
   \<exists>x_l y_l x_r y_r r_l r_r. \<forall>d.
     pupil_stage cfg f ff yaw d =
       Inr (d(''l_eye'' \<mapsto> Pupil x_l y_l, ''r_eye'' \<mapsto> Pupil x_r y_r),
            facing_computation cfg ff yaw r_l r_r)"
  by (auto simp: pupil_stage_def degenerate_eye_def pupil_center_h_ratio_def Let_def)

lemma pupil_stage_cases:
  "(\<exists>dp. pupil_detection cfg = Some dp \<and> degenerate_eye f \<and>
      (\<forall>d. pupil_stage cfg f ff yaw d = Inl ZeroDivisionError)) \<or>
   (\<not> (pupil_detection cfg \<noteq> None \<and> degenerate_eye f) \<and>
      (\<exists>D g. dom D \<union> {''pitch'', ''yaw'', ''roll''} = info_keys cfg \<and>
         (\<forall>d. pupil_stage cfg f ff yaw d = Inr (d ++ D, g))))"
proof (cases "pupil_detection cfg")
  case None
  then have "\<forall>d. pupil_stage cfg f ff yaw d = Inr (d ++ Map.empty, ff)"
    by (simp add: pupil_stage_None)
  moreover have "dom (Map.empty :: info) \<union> {''pitch'', ''yaw'', ''roll''} = info_keys cfg"
    using None by (simp add: info_keys_def)
  ultimately show ?thesis using None by blast
next
  case (Some dp)
  show ?thesis
  proof (cases "degenerate_eye f")
    case True
    with Some show ?thesis by (auto simp: pupil_stage_degenerate)
  next
    case False
    from pupil_stage_Some [OF Some False, of ff yaw]
    obtain x_l y_l x_r y_r r_l r_r where
      eq: "\<And>d. pupil_stage cfg f ff yaw d =
            Inr (d(''l_eye'' \<mapsto> Pupil x_l y_l, ''r_eye'' \<mapsto> Pupil x_r y_r),
                 facing_computation cfg ff yaw r_l r_r)"
      by blast
    let ?D = "[''l_eye'' \<mapsto> Pupil x_l y_l, ''r_eye'' \<mapsto> Pupil x_r y_r] :: info"
    have "\<forall>d. pupil_stage cfg f ff yaw d = Inr (d ++ ?D, facing_computation cfg ff yaw r_l r_r)"
      by (simp add: eq)
    moreover have "dom ?D \<union> {''pitch'', ''yaw'', ''roll''} = info_keys cfg"
      using Some by (auto simp: info_keys_def)
    ultimately show ?thesis using False by blast
  qed
qed

text \<open>The body of the loop: it fails exactly on a degenerate eye under pupil detection;
  otherwise the gaze and the entries it writes depend on the face alone.\<close>

lemma detect_face_cases:
  "(pupil_detection cfg \<noteq> None \<and> degenerate_eye f \<and>
      (\<forall>i v. detect_face cfg env shape (i, f) v = Inl ZeroDivisionError)) \<or>
   (\<not> (pupil_detection cfg \<noteq> None \<and> degenerate_eye f) \<and>
      (\<exists>D g. dom D = info_keys cfg \<and>
         (\<forall>i v. detect_face cfg env shape (i, f) v =
            Inr \<lparr>biggest_face_index =
                   (if face_area f > biggest_face_area v then i else biggest_face_index v),
                 biggest_face_area =
                   (if face_area f > biggest_face_area v then face_area f
                    else biggest_face_area v),
                 saved_info = saved_info v ++ D, gaze_facing = Some g\<rparr>)))"
proof -
  define pyr where "pyr = pose env shape [NOSE f, CHIN f, EYE_L_OUT f, EYE_R_OUT f,
                          MOUTH_L f, MOUTH_R f]"
  define ff where "ff = face_facing cfg (fst pyr) (fst (snd pyr))"
  define P where "P = [''pitch'' \<mapsto> Angle (fst pyr), ''yaw'' \<mapsto> Angle (fst (snd pyr)),
                        ''roll'' \<mapsto> Angle (snd (snd pyr))]"
  have unf: "detect_face cfg env shape (i, f) v =
      (case pupil_stage cfg f ff (fst (snd pyr)) (saved_info v ++ P) of
         Inl e \<Rightarrow> Inl e
       | Inr (diag', gf) \<Rightarrow>
           if face_area f > biggest_face_area v
           then Inr \<lparr>biggest_face_index = i, biggest_face_area = face_area f,
                     saved_info = diag', gaze_facing = Some gf\<rparr>
           else Inr \<lparr>biggest_face_index = biggest_face_index v,
                     biggest_face_area = biggest_face_area v,
                     saved_info = diag', gaze_facing = Some gf\<rparr>)" for i v
    unfolding detect_face_def Let_def pyr_def ff_def P_def by (simp split: sum.split)
  from pupil_stage_cases [of cfg f ff "fst (snd pyr)"]
  show ?thesis
  proof (elim disjE exE conjE)
    fix dp
    assume "pupil_detection cfg = Some dp" "degenerate_eye f"
      "\<forall>d. pupil_stage cfg f ff (fst (snd pyr)) d = Inl ZeroDivisionError"
    then show ?thesis by (simp add: unf)
  next
    fix D g
    assume nd: "\<not> (pupil_detection cfg \<noteq> None \<and> degenerate_eye f)"
      and dom: "dom D \<union> {''pitch'', ''yaw'', ''roll''} = info_keys cfg"
      and eq: "\<forall>d. pupil_stage cfg f ff (fst (snd pyr)) d = Inr (d ++ D, g)"
    have "dom (P ++ D) = info_keys cfg"
      using dom by (auto simp: P_def)
    moreover have "\<forall>i v. detect_face cfg env shape (i, f) v =
            Inr \<lparr>biggest_face_index =
                   (if face_area f > biggest_face_area v then i else biggest_face_index v),
                 biggest_face_area =
                   (if face_area f > biggest_face_area v then face_area f
                    else biggest_face_area v),
                 saved_info = saved_info v ++ (P ++ D), gaze_facing = Some g\<rparr>"
      by (simp add: unf eq)
    ultimately show ?thesis using nd by blast
  qed
qed


lemma detect_face_Inr:
  assumes "detect_face cfg env shape (i, f) v = Inr w"
  shows "biggest_face_index w =
           (if face_area f > biggest_face_area v then i else biggest_face_index v)"
    and "biggest_face_area w =
           (if face_area f > biggest_face_area v then face_area f else biggest_face_area v)"
    and "\<exists>D. dom D = info_keys cfg \<and> saved_info w = saved_info v ++ D"
    and "gaze_facing w \<noteq> None"
proof -
  from detect_face_cases [of cfg f env shape] assms obtain D g where
    D: "dom D = info_keys cfg" and
    eq: "\<And>i v. detect_face cfg env shape (i, f) v =
            Inr \<lparr>biggest_face_index =
                   (if face_area f > biggest_face_area v then i else biggest_face_index v),
                 biggest_face_area =
                   (if face_area f > biggest_face_area v then face_area f
                    else biggest_face_area v),
                 saved_info = saved_info v ++ D, gaze_facing = Some g\<rparr>"
    by auto
  from assms have w: "w = \<lparr>biggest_face_index =
                   (if face_area f > biggest_face_area v then i else biggest_face_index v),
                 biggest_face_area =
                   (if face_area f > biggest_face_area v then face_area f
                    else biggest_face_area v),
                 saved_info = saved_info v ++ D, gaze_facing = Some g\<rparr>"
    by (simp add: eq)
  show "biggest_face_index w =
           (if face_area f > biggest_face_area v then i else biggest_face_index v)"
    by (simp add: w)
  show "biggest_face_area w =
           (if face_area f > biggest_face_area v then face_area f else biggest_face_area v)"
    by (simp add: w)
  show "\<exists>D. dom D = info_keys cfg \<and> saved_info w = saved_info v ++ D"
    using D by (intro exI [of _ D]) (simp add: w)
  show "gaze_facing w \<noteq> None"
    by (simp add: w)
qed

lemma detect_face_total:
  "\<not> (pupil_detection cfg \<noteq> None \<and> degenerate_eye f) \<Longrightarrow>
   \<exists>w. detect_face cfg env shape (i, f) v = Inr w"
  using detect_face_cases [of cfg f env shape] by auto

lemma detect_face_fails:
  "pupil_detection cfg \<noteq> None \<Longrightarrow> degenerate_eye f \<Longrightarrow>
   detect_face cfg env shape (i, f) v = Inl ZeroDivisionError"
  using detect_face_cases [of cfg f env shape] by auto

lemma detect_loop_append:
  "detect_loop cfg env shape (xs @ ys) v =
     (case detect_loop cfg env shape xs v of
        Inl e \<Rightarrow> Inl e
      | Inr v' \<Rightarrow> detect_loop cfg env shape ys v')"
  by (induction xs arbitrary: v) (auto split: sum.splits)


lemma detect_loop_fails:
  "pupil_detection cfg \<noteq> None \<Longrightarrow> \<exists>f\<in>set faces. degenerate_eye f \<Longrightarrow>
   detect_loop cfg env shape (enumerate n faces) v = Inl ZeroDivisionError"
proof (induction faces arbitrary: n v)
  case Nil
  then show ?case by simp
next
  case (Cons f fs)
  show ?case
  proof (cases "degenerate_eye f")
    case True
    with Cons.prems(1) show ?thesis by (simp add: detect_face_fails)
  next
    case False
    then obtain v1 where v1: "detect_face cfg env shape (n, f) v = Inr v1"
      using detect_face_total by blast
    from False Cons.prems(2) have "\<exists>f\<in>set fs. degenerate_eye f" by auto
    from Cons.IH [OF Cons.prems(1) this, of "Suc n" v1] v1 show ?thesis by simp
  qed
qed

lemma detect_loop_dom:
  "detect_loop cfg env shape (enumerate n faces) v = Inr w \<Longrightarrow>
   dom (saved_info v) \<subseteq> info_keys cfg \<Longrightarrow> dom (saved_info w) \<subseteq> info_keys cfg"
proof (induction faces arbitrary: n v)
  case Nil
  then show ?case by simp
next
  case (Cons f fs)
  from Cons.prems(1) obtain v1 where v1: "detect_face cfg env shape (n, f) v = Inr v1"
    and rest: "detect_loop cfg env shape (enumerate (Suc n) fs) v1 = Inr w"
    by (auto split: sum.splits)
  from detect_face_Inr(3) [OF v1] obtain D where
    D: "dom D = info_keys cfg" "saved_info v1 = saved_info v ++ D"
    by blast
  have "dom (saved_info v1) = dom D \<union> dom (saved_info v)"
    by (simp add: D(2))
  with D(1) Cons.prems(2) have "dom (saved_info v1) \<subseteq> info_keys cfg"
    by blast
  from Cons.IH [OF rest this] show ?case .
qed

text \<open>The choice of the biggest face: the area kept is an upper bound of all areas seen;
  either no face beat the area held on entry, or the index is the first face of the
  greatest area.\<close>

lemma detect_loop_select:
  "detect_loop cfg env shape (enumerate n faces) v = Inr w \<Longrightarrow>
   biggest_face_area v \<le> biggest_face_area w \<and>
   (\<forall>j<length faces. face_area (faces ! j) \<le> biggest_face_area w) \<and>
   ((biggest_face_index w = biggest_face_index v \<and>
     biggest_face_area w = biggest_face_area v) \<or>
    (n \<le> biggest_face_index w \<and> biggest_face_index w < n + length faces \<and>
     biggest_face_area v < biggest_face_area w \<and>
     face_area (faces ! (biggest_face_index w - n)) = biggest_face_area w \<and>
     (\<forall>j<biggest_face_index w - n. face_area (faces ! j) < biggest_face_area w)))"
proof (induction faces arbitrary: n v)
  case Nil
  then show ?case by simp
next
  case (Cons f fs)
  from Cons.prems obtain v1 where v1: "detect_face cfg env shape (n, f) v = Inr v1"
    and rest: "detect_loop cfg env shape (enumerate (Suc n) fs) v1 = Inr w"
    by (auto split: sum.splits)
  note ix = detect_face_Inr(1) [OF v1] and ar = detect_face_Inr(2) [OF v1]
  note IH = Cons.IH [OF rest]
  show ?case
  proof (cases "biggest_face_index w = biggest_face_index v1 \<and>
                biggest_face_area w = biggest_face_area v1")
    case True
    with IH ix ar show ?thesis
      by (auto simp: nth_Cons' split: if_splits)
  next
    case False
    with IH have far: "Suc n \<le> biggest_face_index w"
        "biggest_face_index w < Suc n + length fs"
        "biggest_face_area v1 < biggest_face_area w"
        "face_area (fs ! (biggest_face_index w - Suc n)) = biggest_face_area w"
        "\<forall>j<biggest_face_index w - Suc n. face_area (fs ! j) < biggest_face_area w"
        "\<forall>j<length fs. face_area (fs ! j) \<le> biggest_face_area w"
      by auto
    from far(1) have idx: "biggest_face_index w - n = Suc (biggest_face_index w - Suc n)"
      by simp
    have "face_area f \<le> biggest_face_area v1" "biggest_face_area v \<le> biggest_face_area v1"
      using ar by (auto split: if_splits)
    with far idx show ?thesis
      by (auto simp: nth_Cons' less_Suc_eq_0_disj)
  qed
qed

subsection \<open>The loop and the frame\<close>

lemma map_add_absorb: "dom m \<subseteq> dom D \<Longrightarrow> m ++ D = D"
  by (rule ext) (auto simp: map_add_def split: option.splits)

lemma detect_face_env:
  "detect_face cfg (env\<lparr>face_analysis := fs\<rparr>) shape ixf v = detect_face cfg env shape ixf v"
  by (simp add: detect_face_def)

lemma detect_loop_env:
  "detect_loop cfg (env\<lparr>face_analysis := fs\<rparr>) shape xs v = detect_loop cfg env shape xs v"
  by (induction xs arbitrary: v) (simp_all add: detect_face_env split: sum.split)

lemma detect_loop_last:
  assumes "faces \<noteq> []"
    and "detect_loop cfg env shape (enumerate n faces) v = Inr w"
  shows "\<exists>v'. detect_loop cfg env shape (enumerate n (butlast faces)) v = Inr v' \<and>
              detect_face cfg env shape (n + length (butlast faces), last faces) v' = Inr w"
proof -
  from assms(1) have "faces = butlast faces @ [last faces]" by simp
  then have "enumerate n faces =
      enumerate n (butlast faces) @ [(n + length (butlast faces), last faces)]"
    by (metis enumerate_append_eq enumerate_simps(1,2))
  with assms(2) show ?thesis
    by (auto simp: detect_loop_append split: sum.splits)
qed

lemma initial_vars_simps:
  "biggest_face_index initial_vars = 0" "biggest_face_area initial_vars = 0"
  "saved_info initial_vars = Map.empty" "gaze_facing initial_vars = None"
  by (simp_all add: initial_vars_def)

text \<open>What the loop leaves in \<open>gaze_facing\<close> and \<open>saved_info\<close> is what its last iteration
  writes, and that is what the same iteration writes when it is the only one.\<close>

lemma detect_loop_last_face:
  assumes "faces \<noteq> []"
    and "detect_loop cfg env shape (enumerate 0 faces) initial_vars = Inr w"
  shows "\<exists>w1 g. detect_face cfg env shape (0, last faces) initial_vars = Inr w1 \<and>
           saved_info w = saved_info w1 \<and> gaze_facing w = Some g \<and> gaze_facing w1 = Some g"
proof -
  from detect_loop_last [OF assms] obtain v' where
    front: "detect_loop cfg env shape (enumerate 0 (butlast faces)) initial_vars = Inr v'" and
    final: "detect_face cfg env shape (0 + length (butlast faces), last faces) v' = Inr w"
    by blast
  have "dom (saved_info v') \<subseteq> info_keys cfg"
    using detect_loop_dom [OF front] by (simp add: initial_vars_simps)
  moreover
  from detect_face_cases [of cfg "last faces" env shape] final obtain D g where
    D: "dom D = info_keys cfg" and
    eq: "\<And>i v. detect_face cfg env shape (i, last faces) v =
            Inr \<lparr>biggest_face_index =
                   (if face_area (last faces) > biggest_face_area v then i
                    else biggest_face_index v),
                 biggest_face_area =
                   (if face_area (last faces) > biggest_face_area v then face_area (last faces)
                    else biggest_face_area v),
                 saved_info = saved_info v ++ D, gaze_facing = Some g\<rparr>"
    by auto
  ultimately have "saved_info v' ++ D = D"
    by (simp add: map_add_absorb)
  with final have "saved_info w = D" "gaze_facing w = Some g"
    by (auto simp: eq)
  moreover obtain w1 where w1: "detect_face cfg env shape (0, last faces) initial_vars = Inr w1"
    by (simp add: eq)
  moreover from w1 have "saved_info w1 = D" "gaze_facing w1 = Some g"
    by (auto simp: eq initial_vars_simps)
  ultimately show ?thesis by simp
qed

text \<open>After the loop over a non-empty sequence: the index is in range, \<open>gaze_facing\<close> is
  bound, and \<open>detect\<close> returns.\<close>

lemma detect_nonempty:
  assumes "face_analysis env \<noteq> []"
    and "detect_loop cfg env shape (enumerate 0 (face_analysis env)) initial_vars = Inr vars"
  shows "biggest_face_index vars < length (face_analysis env)"
    and "\<exists>gf. gaze_facing vars = Some gf \<and>
           detect cfg env shape =
             Inr \<lparr>out_frame =
                    (if crop_frame cfg
                     then Cropped (crop_slice cfg shape
                            (BOX (face_analysis env ! biggest_face_index vars)))
                     else Whole),
                  out_gaze_facing = gf, out_info = saved_info vars,
                  serial_written =
                    steering cfg shape (BOX (face_analysis env ! biggest_face_index vars))\<rparr>"
proof -
  from detect_loop_select [OF assms(2)] assms(1)
  show ix: "biggest_face_index vars < length (face_analysis env)"
    by (auto simp: initial_vars_simps)
  from detect_loop_last_face [OF assms] obtain g where "gaze_facing vars = Some g"
    by blast
  with ix assms show "\<exists>gf. gaze_facing vars = Some gf \<and>
           detect cfg env shape =
             Inr \<lparr>out_frame =
                    (if crop_frame cfg
                     then Cropped (crop_slice cfg shape
                            (BOX (face_analysis env ! biggest_face_index vars)))
                     else Whole),
                  out_gaze_facing = gf, out_info = saved_info vars,
                  serial_written =
                    steering cfg shape (BOX (face_analysis env ! biggest_face_index vars))\<rparr>"
    by (simp add: detect_def Let_def)
qed

lemma detect_raises:
  "detect_loop cfg env shape (enumerate 0 (face_analysis env)) initial_vars = Inl e \<Longrightarrow>
   detect cfg env shape = Inl e"
  by (simp add: detect_def)

lemma detect_dominant:
  assumes "face_analysis env \<noteq> []"
    and "dominant_box cfg env shape = Inr box"
  shows "\<exists>vars gf. detect_loop cfg env shape (enumerate 0 (face_analysis env)) initial_vars
             = Inr vars \<and>
           gaze_facing vars = Some gf \<and>
           detect cfg env shape =
             Inr \<lparr>out_frame = (if crop_frame cfg then Cropped (crop_slice cfg shape box)
                               else Whole),
                  out_gaze_facing = gf, out_info = saved_info vars,
                  serial_written = steering cfg shape box\<rparr>"
proof -
  from assms(2) obtain vars where
    loop: "detect_loop cfg env shape (enumerate 0 (face_analysis env)) initial_vars = Inr vars"
    and box: "box = BOX (face_analysis env ! biggest_face_index vars)"
    by (auto simp: dominant_box_def split: sum.splits)
  from detect_nonempty(2) [OF assms(1) loop] loop box show ?thesis
    by auto
qed

subsection \<open>The facing classifier\<close>

text \<open>
  Claim C1. For every face that \<open>detect\<close> processes, \<open>face_facing\<close> is true if and only
  if the absolute values of pitch and of yaw are both below the configured
  \<open>face_facing_sensibility\<close>; it is false as soon as one of them is at or beyond it.
\<close>

theorem face_facing_threshold:
  "face_facing cfg pitch yaw =
     (\<bar>pitch\<bar> < face_facing_sensibility cfg \<and> \<bar>yaw\<bar> < face_facing_sensibility cfg) \<and>
   (\<not> face_facing cfg pitch yaw) =
     (face_facing_sensibility cfg \<le> \<bar>pitch\<bar> \<or> face_facing_sensibility cfg \<le> \<bar>yaw\<bar>)"
  by (auto simp: face_facing_def)

text \<open>
  Claim C2. With pupil ratios at hand and \<open>face_facing\<close> true, \<open>gaze_facing\<close> is true if
  and only if the greater of the two absolute ratios is below
  \<open>face_facing_sensibility / EYE_RATIO_MULTIPLIER\<close>, whatever the yaw.
\<close>

theorem gaze_facing_of_facing_face:
  "facing_computation cfg True yaw r_l r_r =
     (max \<bar>r_l\<bar> \<bar>r_r\<bar> < face_facing_sensibility cfg / EYE_RATIO_MULTIPLIER)"
  by (simp add: facing_computation_def)

text \<open>
  Claim C3 says that a ratio at or above half that bound, \<open>T / (2 M)\<close>, makes
  \<open>gaze_facing\<close> false. With the default threshold 20 and a left ratio of 0.15 the face
  is facing, the ratio is above 20 / 200 = 0.1, and \<open>gaze_facing\<close> is true.
\<close>

theorem half_bound_counterexample:
  "face_facing sample_config 0 0 \<and>
   face_facing_sensibility sample_config / (2 * EYE_RATIO_MULTIPLIER) \<le> \<bar>15 / 100\<bar> \<and>
   facing_computation sample_config (face_facing sample_config 0 0) 0 (15 / 100) 0"
  by (simp add: face_facing_def facing_computation_def sample_config_def
      FACE_FACING_SENSIBILITY_def EYE_RATIO_MULTIPLIER_def)

text \<open>
  Claim C3, amended. With \<open>face_facing\<close> true and both ratios within
  \<open>[- T / (2 M), T / (2 M)]\<close>, \<open>gaze_facing\<close> is true; as soon as one ratio is at or
  above \<open>T / M\<close> in absolute value, \<open>gaze_facing\<close> is false.
\<close>

theorem gaze_facing_ratio_bounds:
  assumes "face_facing cfg pitch yaw"
  shows "(\<bar>r_l\<bar> \<le> face_facing_sensibility cfg / (2 * EYE_RATIO_MULTIPLIER) \<and>
          \<bar>r_r\<bar> \<le> face_facing_sensibility cfg / (2 * EYE_RATIO_MULTIPLIER) \<longrightarrow>
            facing_computation cfg (face_facing cfg pitch yaw) yaw r_l r_r) \<and>
         (face_facing_sensibility cfg / EYE_RATIO_MULTIPLIER \<le> \<bar>r_l\<bar> \<or>
          face_facing_sensibility cfg / EYE_RATIO_MULTIPLIER \<le> \<bar>r_r\<bar> \<longrightarrow>
            \<not> facing_computation cfg (face_facing cfg pitch yaw) yaw r_l r_r)"
proof -
  from assms have pos: "0 < face_facing_sensibility cfg"
    by (auto simp: face_facing_def split: if_splits)
  then have "face_facing_sensibility cfg / (2 * EYE_RATIO_MULTIPLIER)
      < face_facing_sensibility cfg / EYE_RATIO_MULTIPLIER"
    by (simp add: EYE_RATIO_MULTIPLIER_def)
  with assms show ?thesis
    by (auto simp: facing_computation_def)
qed

theorem gaze_facing_ratio_bounds_witness:
  "face_facing sample_config 3 (-4) \<and>
   facing_computation sample_config (face_facing sample_config 3 (-4)) (-4) (1 / 10) (- 1 / 10) \<and>
   \<not> facing_computation sample_config (face_facing sample_config 3 (-4)) (-4) (1 / 5) 0"
  using gaze_facing_ratio_bounds [of sample_config 3 "-4" "1 / 10" "- 1 / 10"]
    gaze_facing_ratio_bounds [of sample_config 3 "-4" "1 / 5" 0]
  by (simp add: face_facing_def sample_config_def FACE_FACING_SENSIBILITY_def
      EYE_RATIO_MULTIPLIER_def)



subsection \<open>A degenerate eye\<close>

text \<open>
  Claim C5 says that a division by zero in the ratio of one face leaves the other faces
  of the frame processed and the \<open>face_facing\<close> of the failing face reported. In a frame
  of two faces whose first has a collapsed left eye, \<open>detect\<close> raises
  \<open>ZeroDivisionError\<close> and returns nothing, although the second face alone is classified.
\<close>

theorem degenerate_face_counterexample:
  "degenerate_eye (collapsed_face 0 (100, 50, 80, 60)) \<and>
   detect sample_config
     (sample_env [collapsed_face 0 (100, 50, 80, 60), sample_face 0 (300, 50, 40, 40)])
     (480, 640) = Inl ZeroDivisionError \<and>
   map_sum id out_gaze_facing
     (detect sample_config (sample_env [sample_face 0 (300, 50, 40, 40)]) (480, 640)) = Inr True"
  by (simp add: detect_defs sample_defs degenerate_eye_def)

text \<open>
  Claim C5, amended. When pupil detection is on and, for some face of the frame, an eye's
  inner and outer corner have the same x-coordinate, the ratio computation of that eye
  fails with a division by zero, and the exception leaves \<open>detect\<close>: the call returns no
  frame, no \<open>gaze_facing\<close> and no diagnostic record, for any face of the frame.
\<close>

theorem degenerate_eye_aborts_detect:
  assumes "pupil_detection cfg \<noteq> None"
    and "f \<in> set (face_analysis env)"
    and "degenerate_eye f"
  shows "(pupil_center_h_ratio x_l (fst (EYE_L_IN f)) (fst (EYE_L_OUT f)) = Inl ZeroDivisionError \<or>
          pupil_center_h_ratio x_r (fst (EYE_R_OUT f)) (fst (EYE_R_IN f)) = Inl ZeroDivisionError) \<and>
         detect cfg env shape = Inl ZeroDivisionError"
proof -
  from assms(3) have "pupil_center_h_ratio x_l (fst (EYE_L_IN f)) (fst (EYE_L_OUT f)) =
        Inl ZeroDivisionError \<or>
      pupil_center_h_ratio x_r (fst (EYE_R_OUT f)) (fst (EYE_R_IN f)) = Inl ZeroDivisionError"
    by (auto simp: degenerate_eye_def pupil_center_h_ratio_def)
  moreover from assms have "detect cfg env shape = Inl ZeroDivisionError"
    by (intro detect_raises detect_loop_fails) auto
  ultimately show ?thesis by simp
qed

theorem degenerate_eye_aborts_detect_witness:
  "pupil_detection sample_config \<noteq> None \<and>
   degenerate_eye (collapsed_face 40 (300, 50, 40, 40)) \<and>
   detect sample_config
     (sample_env [sample_face 0 (100, 50, 80, 60), collapsed_face 40 (300, 50, 40, 40),
                  sample_face 0 (500, 50, 40, 40)])
     (480, 640) = Inl ZeroDivisionError"
  using degenerate_eye_aborts_detect [of sample_config "collapsed_face 40 (300, 50, 40, 40)"
      "sample_env [sample_face 0 (100, 50, 80, 60), collapsed_face 40 (300, 50, 40, 40),
                   sample_face 0 (500, 50, 40, 40)]" 0 0 "(480, 640)"]
  by (simp add: sample_defs degenerate_eye_def)

subsection \<open>The biggest face\<close>




subsection \<open>No face\<close>

text \<open>
  Claim C7. When the landmark provider returns an empty sequence, \<open>detect\<close> returns
  \<open>gaze_facing = False\<close> and the frame as it came, and writes nothing to the serial port.
\<close>

theorem no_face_detected:
  "face_analysis env = [] \<Longrightarrow>
   detect cfg env shape =
     Inr \<lparr>out_frame = Whole, out_gaze_facing = False, out_info = Map.empty,
          serial_written = []\<rparr>"
  by (simp add: detect_def initial_vars_def)

theorem no_face_detected_witness:
  "face_analysis (sample_env []) = [] \<and>
   detect sample_config (sample_env []) (480, 640) =
     Inr \<lparr>out_frame = Whole, out_gaze_facing = False, out_info = Map.empty,
          serial_written = []\<rparr>"
  using no_face_detected [of "sample_env []" sample_config "(480, 640)"]
  by (simp add: sample_env_def)

subsection \<open>Crop and steering\<close>

text \<open>
  Claim C8. For the box \<open>(100, 50, 80, 60)\<close> of the biggest face, a frame of 480 rows
  and 640 columns and the paddings \<open>(0.5, 0, 0.15, 0)\<close>, the frame that \<open>detect\<close>
  returns is the slice of rows 20 to 119 and columns 100 to 180; the formula of the
  specification gives the same four bounds.
\<close>

theorem crop_rectangle_example:
  assumes "crop_frame cfg"
    and "crop_frame_paddings cfg = (1 / 2, 0, 15 / 100, 0)"
    and "face_analysis env \<noteq> []"
    and "dominant_box cfg env (480, 640) = Inr (100, 50, 80, 60)"
  shows "map_sum id out_frame (detect cfg env (480, 640)) = Inr (Cropped (20, 119, 100, 180)) \<and>
         spec_crop_rectangle (crop_frame_paddings cfg) (480, 640) (100, 50, 80, 60)
           = (20, 119, 100, 180)"
proof -
  have "crop_slice cfg (480, 640) (100, 50, 80, 60) = (20, 119, 100, 180)"
    by (simp add: crop_slice_def assms(2) py_int_def)
  with detect_dominant [OF assms(3,4)] assms(1)
  have "map_sum id out_frame (detect cfg env (480, 640)) = Inr (Cropped (20, 119, 100, 180))"
    by auto
  moreover have "spec_crop_rectangle (crop_frame_paddings cfg) (480, 640) (100, 50, 80, 60)
      = (20, 119, 100, 180)"
    by (simp add: spec_crop_rectangle_def assms(2))
  ultimately show ?thesis by simp
qed

theorem crop_rectangle_example_witness:
  "crop_frame sample_config \<and>
   crop_frame_paddings sample_config = (1 / 2, 0, 15 / 100, 0) \<and>
   dominant_box sample_config
     (sample_env [sample_face 0 (300, 50, 40, 40), sample_face 40 (100, 50, 80, 60)])
     (480, 640) = Inr (100, 50, 80, 60) \<and>
   map_sum id out_frame
     (detect sample_config
        (sample_env [sample_face 0 (300, 50, 40, 40), sample_face 40 (100, 50, 80, 60)])
        (480, 640)) = Inr (Cropped (20, 119, 100, 180))"
proof -
  have cfg: "crop_frame sample_config"
    "crop_frame_paddings sample_config = (1 / 2, 0, 15 / 100, 0)"
    by (simp_all add: sample_config_def)
  have faces: "face_analysis
      (sample_env [sample_face 0 (300, 50, 40, 40), sample_face 40 (100, 50, 80, 60)]) \<noteq> []"
    by (simp add: sample_env_def)
  have box: "dominant_box sample_config
     (sample_env [sample_face 0 (300, 50, 40, 40), sample_face 40 (100, 50, 80, 60)])
     (480, 640) = Inr (100, 50, 80, 60)"
    by (simp add: dominant_box_def detect_defs sample_defs)
  from crop_rectangle_example [OF cfg faces box] cfg box show ?thesis
    by simp
qed




subsection \<open>Several faces\<close>



end
